theory Spec2Isabelle
  imports Main "HOL-Library.Sublist"
begin

section \<open>The DBT MCP session client (agents/mcp\_client.py)\<close>

subsection \<open>Exceptions, transport events and console output\<close>

text \<open>
  A raised Python exception is a value: the name of its class and its message, so that
  \<^verbatim>\<open>type(e).__name__\<close> is \<open>exn_class\<close> and \<^verbatim>\<open>str(e)\<close> is \<open>exn_msg\<close>. Unless it is
  tagged otherwise, such a value stands for an instance of a class derived from
  \<^verbatim>\<open>Exception\<close>, which is what every \<^verbatim>\<open>except Exception\<close> clause of the source
  catches. A keyboard interrupt is not such a value; it has a constructor of its own
  where the source names it (\<open>ask_agent\<close>).
\<close>

datatype exn = Exn (exn_class: string) (exn_msg: string)

text \<open>
  What an awaited teardown can raise is tagged: an instance of \<^verbatim>\<open>Exception\<close>, or an
  exception that derives from \<^verbatim>\<open>BaseException\<close> only, such as
  \<^verbatim>\<open>asyncio.CancelledError\<close>, which no \<^verbatim>\<open>except Exception\<close> clause catches.
\<close>

datatype raised = Exception exn | BaseException exn

text \<open>The two context managers that \<open>connect\<close> enters on the exit stack.\<close>

datatype resource = StdioTransport | Session

text \<open>
  Every operation on the outside world leaves one event: entering \<^verbatim>\<open>stdio_client\<close> (the
  subprocess spawn, with its command and arguments), entering \<^verbatim>\<open>ClientSession\<close>,
  the three session methods, and the exit of a context manager when the stack unwinds.
\<close>

type_synonym py_args = "(string \<times> string) list"

datatype io_event =
    Spawn string "string list"
  | OpenSession
  | Initialize
  | ListTools
  | CallTool string py_args
  | Release resource

text \<open>A tool descriptor as the server reports it; the description is optional.\<close>

record tool =
  name :: string
  description :: "string option"
  inputSchema :: "string option"

text \<open>
  The content parts of a tool result, as the protocol library declares them: only a text
  part has the attribute \<^verbatim>\<open>text\<close>.
\<close>

datatype content_part =
    TextContent string
  | ImageContent string string
  | EmbeddedResource string

record call_result =
  content :: "content_part list"
  isError :: bool

text \<open>One constructor for each \<^verbatim>\<open>print\<close> of the two modules.\<close>

datatype notice =
    AlreadyConnected
  | ConnectedOk
  | ConnectFailed exn
  | ToolsHeader nat
  | Rule
  | ToolName string
  | ToolDescription string
  | ListFailed exn
  | CallFailed string exn
  | ConnectionClosed
  | CloseFailed exn
  | Discovering
  | Found nat
  | ToolLine string string
  | Created nat

text \<open>
  The outside world decides how each external call ends. An outcome may depend on the
  events so far, so that the same call can end differently at different times. The
  exit of a resource can raise an \<^verbatim>\<open>Exception\<close> (\<open>release\<close>); while \<open>close\<close> awaits it,
  it can also be cut short by an exception that is not one (\<open>interrupt\<close>), a
  cancellation for instance. Such exceptions are followed through \<open>close\<close> only: the
  other operations are modelled on the runs without them.
\<close>

record transport =
  spawn :: "io_event list \<Rightarrow> exn option"
  open_session :: "io_event list \<Rightarrow> exn option"
  initialize :: "io_event list \<Rightarrow> exn option"
  list_tools_rpc :: "io_event list \<Rightarrow> exn + tool list"
  call_tool_rpc :: "io_event list \<Rightarrow> string \<Rightarrow> py_args \<Rightarrow> exn + call_result"
  release :: "io_event list \<Rightarrow> resource \<Rightarrow> exn option"
  interrupt :: "io_event list \<Rightarrow> resource \<Rightarrow> exn option"
  bridge :: "io_event list \<Rightarrow> exn option"
  str_of_result :: "call_result \<Rightarrow> string"

subsection \<open>The client object and the process state\<close>

text \<open>
  The three attributes of \<^verbatim>\<open>DBTMCPClient\<close>, and the identity of the object. A handle is
  unset when it is \<open>None\<close>. A session handle is numbered by the event at which it was
  opened; the exit stack is the list of the resources to release, the latest first.
\<close>

record client =
  ident :: nat
  session :: "nat option"
  exit_stack :: "resource list option"
  connected :: bool

text \<open>
  The process: the events on the transport, the console, the module global
  \<^verbatim>\<open>_client_instance\<close> and the number of client objects constructed so far.
\<close>

record sys =
  io :: "io_event list"
  stdout :: "notice list"
  client_instance :: "client option"
  next_id :: nat

definition DBTMCPClient :: "nat \<Rightarrow> client" where
  "DBTMCPClient i = \<lparr>ident = i, session = None, exit_stack = None, connected = False\<rparr>"

definition perform :: "io_event \<Rightarrow> sys \<Rightarrow> sys" where
  "perform ev s = s\<lparr>io := io s @ [ev]\<rparr>"

definition print :: "notice \<Rightarrow> sys \<Rightarrow> sys" where
  "print n s = s\<lparr>stdout := stdout s @ [n]\<rparr>"

definition not_connected :: exn where
  "not_connected = Exn ''RuntimeError'' ''Not connected to MCP Server. Call connect() first.''"

subsection \<open>Unwinding the exit stack\<close>

text \<open>
  \<^verbatim>\<open>AsyncExitStack.aclose()\<close> pops every registered exit, the latest first, runs each
  of them even after one has raised, and raises the last exception at the end. How the
  exit of a resource ends is given by \<open>exits\<close>.
\<close>

fun unwind ::
  "(io_event list \<Rightarrow> resource \<Rightarrow> 'e option) \<Rightarrow> resource list \<Rightarrow> 'e option \<Rightarrow> sys \<Rightarrow> 'e option \<times> sys" where
  "unwind exits [] pending s = (pending, s)"
| "unwind exits (r # rs) pending s =
     (case exits (io s) r of
        None \<Rightarrow> unwind exits rs pending (perform (Release r) s)
      | Some e \<Rightarrow> unwind exits rs (Some e) (perform (Release r) s))"

definition aclose ::
  "(io_event list \<Rightarrow> resource \<Rightarrow> 'e option) \<Rightarrow> resource list \<Rightarrow> sys \<Rightarrow> 'e option \<times> sys" where
  "aclose exits st s = unwind exits st None s"

text \<open>The exit of a resource as \<open>close\<close> meets it: interrupted, raising, or done.\<close>

definition exit_outcome :: "transport \<Rightarrow> io_event list \<Rightarrow> resource \<Rightarrow> raised option" where
  "exit_outcome w tr r =
     (case interrupt w tr r of
        Some b \<Rightarrow> Some (BaseException b)
      | None \<Rightarrow> (case release w tr r of Some e \<Rightarrow> Some (Exception e) | None \<Rightarrow> None))"

subsection \<open>The operations of the client\<close>

fun tool_lines :: "tool \<Rightarrow> notice list" where
  "tool_lines t =
     ToolName (name t) #
     (case description t of
        None \<Rightarrow> []
      | Some d \<Rightarrow> if d \<noteq> [] then [ToolDescription d] else [])"

definition list_available_tools :: "transport \<Rightarrow> client \<Rightarrow> sys \<Rightarrow> sys" where
  "list_available_tools w c s =
     (case session c of
        None \<Rightarrow> s
      | Some h \<Rightarrow>
          (case list_tools_rpc w (io s) of
             Inl e \<Rightarrow> print (ListFailed e) (perform ListTools s)
           | Inr tools \<Rightarrow>
               (perform ListTools s)
                 \<lparr>stdout := stdout s @ [ToolsHeader (length tools), Rule]
                              @ concat (map tool_lines tools) @ [Rule]\<rparr>))"

text \<open>
  The handler of \<open>connect\<close>: it reports the failure, closes the exit stack when there is
  one, clears that handle and raises the failure again. When closing raises, the
  assignment after it is not reached and the new exception leaves the handler.
\<close>

definition connect_failed :: "transport \<Rightarrow> exn \<Rightarrow> client \<Rightarrow> sys \<Rightarrow> (exn + unit) \<times> client \<times> sys" where
  "connect_failed w e c s =
     (let s1 = print (ConnectFailed e) s in
      case exit_stack c of
        None \<Rightarrow> (Inl e, c, s1)
      | Some st \<Rightarrow>
          (case aclose (release w) st s1 of
             (None, s2) \<Rightarrow> (Inl e, c\<lparr>exit_stack := None\<rparr>, s2)
           | (Some e2, s2) \<Rightarrow> (Inl e2, c\<lparr>exit_stack := Some []\<rparr>, s2)))"

definition connect :: "transport \<Rightarrow> client \<Rightarrow> sys \<Rightarrow> (exn + unit) \<times> client \<times> sys" where
  "connect w c s =
     (if connected c then (Inr (), c, print AlreadyConnected s)
      else
        let c1 = c\<lparr>exit_stack := Some []\<rparr>;
            s1 = perform (Spawn ''uvx'' [''--env-file'', ''./.env'', ''dbt-mcp'']) s
        in case spawn w (io s) of
             Some e \<Rightarrow> connect_failed w e c1 s1
           | None \<Rightarrow>
               let c2 = c1\<lparr>exit_stack := Some [StdioTransport]\<rparr>;
                   s2 = perform OpenSession s1
               in case open_session w (io s1) of
                    Some e \<Rightarrow> connect_failed w e c2 s2
                  | None \<Rightarrow>
                      let c3 = c2\<lparr>exit_stack := Some [Session, StdioTransport],
                                  session := Some (length (io s1))\<rparr>;
                          s3 = perform Initialize s2
                      in case initialize w (io s2) of
                           Some e \<Rightarrow> connect_failed w e c3 s3
                         | None \<Rightarrow>
                             let c4 = c3\<lparr>connected := True\<rparr>;
                                 s4 = print ConnectedOk s3
                             in (Inr (), c4, list_available_tools w c4 s4))"

definition py_or_empty :: "py_args option \<Rightarrow> py_args" where
  "py_or_empty arguments = (case arguments of None \<Rightarrow> [] | Some a \<Rightarrow> a)"

definition call_tool ::
  "transport \<Rightarrow> client \<Rightarrow> string \<Rightarrow> py_args option \<Rightarrow> sys \<Rightarrow> (exn + call_result) \<times> client \<times> sys" where
  "call_tool w c tool_name arguments s =
     (if \<not> connected c \<or> session c = None then (Inl not_connected, c, s)
      else
        let s1 = perform (CallTool tool_name (py_or_empty arguments)) s
        in case call_tool_rpc w (io s) tool_name (py_or_empty arguments) of
             Inr result \<Rightarrow> (Inr result, c, s1)
           | Inl e \<Rightarrow> (Inl e, c, print (CallFailed tool_name e) s1))"

definition list_tools :: "transport \<Rightarrow> client \<Rightarrow> sys \<Rightarrow> (exn + tool list) \<times> client \<times> sys" where
  "list_tools w c s =
     (if \<not> connected c \<or> session c = None then (Inl not_connected, c, s)
      else
        case list_tools_rpc w (io s) of
          Inl e \<Rightarrow> (Inl e, c, perform ListTools s)
        | Inr tools \<Rightarrow> (Inr tools, c, perform ListTools s))"

text \<open>
  \<open>close\<close>: the handler catches the \<^verbatim>\<open>Exception\<close> that closing the stack raises, and
  the \<^verbatim>\<open>finally\<close> block resets the three attributes on every path. An exception that
  is not an \<^verbatim>\<open>Exception\<close> passes the handler: after the reset it leaves \<open>close\<close>.
\<close>

definition close :: "transport \<Rightarrow> client \<Rightarrow> sys \<Rightarrow> (raised + unit) \<times> client \<times> sys" where
  "close w c s =
     (case exit_stack c of
        None \<Rightarrow> (Inr (), c, s)
      | Some st \<Rightarrow>
          (case aclose (exit_outcome w) st s of
             (None, s1) \<Rightarrow>
               (Inr (), c\<lparr>exit_stack := None, session := None, connected := False\<rparr>,
                print ConnectionClosed s1)
           | (Some (Exception e), s1) \<Rightarrow>
               (Inr (), c\<lparr>exit_stack := None, session := None, connected := False\<rparr>,
                print (CloseFailed e) s1)
           | (Some (BaseException b), s1) \<Rightarrow>
               (Inl (BaseException b),
                c\<lparr>exit_stack := None, session := None, connected := False\<rparr>, s1)))"

subsection \<open>The global accessor\<close>

definition get_mcp_client :: "transport \<Rightarrow> sys \<Rightarrow> (exn + client) \<times> sys" where
  "get_mcp_client w s =
     (let s0 = (case client_instance s of
                  None \<Rightarrow> s\<lparr>client_instance := Some (DBTMCPClient (next_id s)),
                            next_id := Suc (next_id s)\<rparr>
                | Some c \<Rightarrow> s);
          inst = (case client_instance s of
                    None \<Rightarrow> DBTMCPClient (next_id s)
                  | Some c \<Rightarrow> c)
      in if \<not> connected inst then
           (case connect w inst s0 of
              (Inl e, c', s') \<Rightarrow> (Inl e, s'\<lparr>client_instance := Some c'\<rparr>)
            | (Inr u, c', s') \<Rightarrow> (Inr c', s'\<lparr>client_instance := Some c'\<rparr>))
         else (Inr inst, s0))"

text \<open>
  When \<open>close\<close> raises, the assignment after it is not reached: the global keeps the
  instance, which \<open>close\<close> has reset.
\<close>

definition close_global_client :: "transport \<Rightarrow> sys \<Rightarrow> (raised + unit) \<times> sys" where
  "close_global_client w s =
     (case client_instance s of
        None \<Rightarrow> (Inr (), s)
      | Some c \<Rightarrow>
          (case close w c s of
             (Inl b, c', s') \<Rightarrow> (Inl b, s'\<lparr>client_instance := Some c'\<rparr>)
           | (Inr u, c', s') \<Rightarrow> (Inr (), s'\<lparr>client_instance := None\<rparr>)))"

section \<open>Tool discovery and the agent (agents/agent.py)\<close>

subsection \<open>The adapter of one tool\<close>

definition quoted :: "string \<Rightarrow> string" where
  "quoted x = [CHR 0x27] @ x @ [CHR 0x27]"

definition error_calling :: "string \<Rightarrow> exn \<Rightarrow> string" where
  "error_calling tool_name e = ''Error calling MCP tool '' @ quoted tool_name @ '': '' @ exn_msg e"

definition no_attribute :: "string \<Rightarrow> string \<Rightarrow> exn" where
  "no_attribute cls attr =
     Exn ''AttributeError'' (quoted cls @ '' object has no attribute '' @ quoted attr)"

text \<open>
  The coroutine \<^verbatim>\<open>_call\<close> of the wrapper: the client, one \<open>call_tool\<close>, and the
  attribute \<^verbatim>\<open>text\<close> of the first content part when the content is not empty.
\<close>

definition call_coroutine :: "transport \<Rightarrow> string \<Rightarrow> py_args \<Rightarrow> sys \<Rightarrow> (exn + string) \<times> sys" where
  "call_coroutine w tool_name kwargs s =
     (case get_mcp_client w s of
        (Inl e, s1) \<Rightarrow> (Inl e, s1)
      | (Inr client, s1) \<Rightarrow>
          (case call_tool w client tool_name (Some kwargs) s1 of
             (Inl e, c', s2) \<Rightarrow> (Inl e, s2)
           | (Inr result, c', s2) \<Rightarrow>
               (case content result of
                  [] \<Rightarrow> (Inr (str_of_result w result), s2)
                | TextContent t # rest \<Rightarrow> (Inr t, s2)
                | ImageContent d m # rest \<Rightarrow> (Inl (no_attribute ''ImageContent'' ''text''), s2)
                | EmbeddedResource r # rest \<Rightarrow>
                    (Inl (no_attribute ''EmbeddedResource'' ''text''), s2))))"

text \<open>
  The synchronous wrapper. Getting hold of an event loop can itself raise (\<open>bridge\<close>);
  that and every exception of the coroutine end in the same handler.
\<close>

definition sync_call_mcp_tool :: "transport \<Rightarrow> string \<Rightarrow> py_args \<Rightarrow> sys \<Rightarrow> string \<times> sys" where
  "sync_call_mcp_tool w tool_name kwargs s =
     (case bridge w (io s) of
        Some e \<Rightarrow> (error_calling tool_name e, s)
      | None \<Rightarrow>
          (case call_coroutine w tool_name kwargs s of
             (Inl e, s') \<Rightarrow> (error_calling tool_name e, s')
           | (Inr t, s') \<Rightarrow> (t, s')))"

text \<open>
  The tool that \<^verbatim>\<open>StructuredTool.from_function\<close> returns. The function belongs to the
  orchestration library and is given the name, the description and the function, which
  is \<open>sync_call_mcp_tool\<close> bound to the tool name of the closure. The tool has the name
  and the function it was given; its description is what the library keeps of the
  description it was given (it strips the white space around it), and \<open>kept\<close> stands for
  that.
\<close>

record adapter =
  adapter_name :: string
  adapter_description :: string
  adapter_func :: string

definition create_mcp_tool_wrapper ::
  "(string \<Rightarrow> string) \<Rightarrow> string \<Rightarrow> string option \<Rightarrow> string option \<Rightarrow> adapter" where
  "create_mcp_tool_wrapper kept tool_name tool_description tool_schema =
     \<lparr>adapter_name = tool_name,
      adapter_description =
        kept (case tool_description of
                None \<Rightarrow> ''MCP tool: '' @ tool_name
              | Some d \<Rightarrow> if d \<noteq> [] then d else ''MCP tool: '' @ tool_name),
      adapter_func = tool_name\<rparr>"

subsection \<open>Discovery\<close>

text \<open>
  The loop of \<open>discover_mcp_tools\<close> over the descriptors, with the list built so far.
  Printing the line of a tool slices its description, which raises when there is none.
\<close>

fun convert_tools ::
  "(string \<Rightarrow> string) \<Rightarrow> tool list \<Rightarrow> adapter list \<Rightarrow> sys \<Rightarrow> (exn + adapter list) \<times> sys" where
  "convert_tools kept [] langchain_tools s = (Inr langchain_tools, s)"
| "convert_tools kept (mcp_tool # ts) langchain_tools s =
     (case description mcp_tool of
        None \<Rightarrow> (Inl (Exn ''TypeError'' (quoted ''NoneType'' @ '' object is not subscriptable'')), s)
      | Some d \<Rightarrow>
          convert_tools kept ts
            (langchain_tools @
               [create_mcp_tool_wrapper kept (name mcp_tool) (description mcp_tool)
                  (inputSchema mcp_tool)])
            (print (ToolLine (name mcp_tool) (take 60 d)) s))"

definition discover_mcp_tools ::
  "(string \<Rightarrow> string) \<Rightarrow> transport \<Rightarrow> sys \<Rightarrow> (exn + adapter list) \<times> sys" where
  "discover_mcp_tools kept w s =
     (case get_mcp_client w (print Discovering s) of
        (Inl e, s1) \<Rightarrow> (Inl e, s1)
      | (Inr client, s1) \<Rightarrow>
          (case list_tools w client s1 of
             (Inl e, c', s2) \<Rightarrow> (Inl e, s2)
           | (Inr tools, c', s2) \<Rightarrow>
               (case convert_tools kept tools [] (print (Found (length tools)) s2) of
                  (Inl e, s3) \<Rightarrow> (Inl e, s3)
                | (Inr langchain_tools, s3) \<Rightarrow>
                    (Inr langchain_tools, print (Created (length langchain_tools)) s3))))"

subsection \<open>Asking the agent\<close>

text \<open>
  A message of the agent's result: its class, and the attributes \<^verbatim>\<open>type\<close> and
  \<^verbatim>\<open>content\<close> when it has them. A content is a string or a list of blocks.
\<close>

datatype py_content = Str string | Blocks "string list"

record message =
  msg_class :: string
  msg_type :: "string option"
  msg_content :: "py_content option"

text \<open>The result of an inference turn is a dictionary; the key \<^verbatim>\<open>messages\<close> may be missing.\<close>

record agent_state =
  messages :: "message list option"

text \<open>
  How \<^verbatim>\<open>get_agent()\<close> followed by \<^verbatim>\<open>agent.invoke\<close> ends: with a result, with an
  exception, or with the user's interrupt.
\<close>

datatype invoke_outcome = Returned agent_state | Raised exn | KeyboardInterrupt

text \<open>
  The agent, with what the interpreter knows besides: the string form of a result, and
  the classes that derive from \<^verbatim>\<open>TimeoutError\<close>.
\<close>

record agent =
  invoke :: "string \<Rightarrow> invoke_outcome"
  str_of_state :: "agent_state \<Rightarrow> string"
  timeout_subclass :: "string \<Rightarrow> bool"

text \<open>
  The loop over the reversed messages; \<open>Inr None\<close> when it ends without a
  \<^verbatim>\<open>return\<close>.
\<close>

fun scan_messages :: "message list \<Rightarrow> exn + py_content option" where
  "scan_messages [] = Inr None"
| "scan_messages (msg # rest) =
     (if msg_type msg = Some ''ai'' then
        (case msg_content msg of
           None \<Rightarrow> Inl (no_attribute (msg_class msg) ''content'')
         | Some c \<Rightarrow> Inr (Some c))
      else
        (case msg_content msg of
           Some (Str t) \<Rightarrow> Inr (Some (Str t))
         | Some (Blocks b) \<Rightarrow> scan_messages rest
         | None \<Rightarrow> scan_messages rest))"

text \<open>
  The handlers of \<open>ask_agent\<close> for an exception: \<^verbatim>\<open>except TimeoutError\<close> catches the
  class itself and the classes that derive from it.
\<close>

definition error_occurred :: "(string \<Rightarrow> bool) \<Rightarrow> exn \<Rightarrow> py_content" where
  "error_occurred derived e =
     (if exn_class e = ''TimeoutError'' \<or> derived (exn_class e) then Str ''Query timed out.''
      else Str (''Sorry, an error occurred: '' @ exn_class e @ '' - '' @ exn_msg e))"

definition ask_agent :: "agent \<Rightarrow> string \<Rightarrow> py_content" where
  "ask_agent ag question =
     (case invoke ag question of
        KeyboardInterrupt \<Rightarrow> Str ''Query interrupted by user.''
      | Raised e \<Rightarrow> error_occurred (timeout_subclass ag) e
      | Returned result \<Rightarrow>
          (case scan_messages (rev (case messages result of None \<Rightarrow> [] | Some ms \<Rightarrow> ms)) of
             Inl e \<Rightarrow> error_occurred (timeout_subclass ag) e
           | Inr (Some c) \<Rightarrow> c
           | Inr None \<Rightarrow> Str (str_of_state ag result)))"

section \<open>Predicates of the properties\<close>

text \<open>The invariant of the client: a connected client holds both handles.\<close>

definition client_inv :: "client \<Rightarrow> bool" where
  "client_inv c = (connected c \<longrightarrow> session c \<noteq> None \<and> exit_stack c \<noteq> None)"

text \<open>
  The states a client object can be in: freshly constructed, or left by one of its five
  operations, run in any process state against any transport.
\<close>

inductive reachable :: "client \<Rightarrow> bool" where
  constructed: "reachable (DBTMCPClient i)"
| after_connect: "reachable c \<Longrightarrow> connect w c s = (r, c', s') \<Longrightarrow> reachable c'"
| after_close: "reachable c \<Longrightarrow> close w c s = (r, c', s') \<Longrightarrow> reachable c'"
| after_call_tool:
    "reachable c \<Longrightarrow> call_tool w c tool_name arguments s = (q, c', s') \<Longrightarrow> reachable c'"
| after_list_tools: "reachable c \<Longrightarrow> list_tools w c s = (p, c', s') \<Longrightarrow> reachable c'"

text \<open>
  A message is the assistant's when its type is \<^verbatim>\<open>ai\<close>; it has text when its
  content is a string.
\<close>

definition assistant :: "message \<Rightarrow> bool" where
  "assistant msg = (msg_type msg = Some ''ai'')"

definition has_text :: "message \<Rightarrow> bool" where
  "has_text msg =
     (case msg_content msg of Some (Str t) \<Rightarrow> True | Some (Blocks b) \<Rightarrow> False | None \<Rightarrow> False)"


text \<open>The adapter that one pass of the discovery loop builds from a descriptor.\<close>

definition adapter_of :: "(string \<Rightarrow> string) \<Rightarrow> tool \<Rightarrow> adapter" where
  "adapter_of kept t = create_mcp_tool_wrapper kept (name t) (description t) (inputSchema t)"

section \<open>Fixtures\<close>

text \<open>
  A fake transport: spawning and opening succeed, the handshake ends as given, and the
  two requests always answer with the given tool list and the given result.
\<close>

definition fake_transport :: "exn option \<Rightarrow> exn + tool list \<Rightarrow> exn + call_result \<Rightarrow> transport" where
  "fake_transport handshake tools answer =
     \<lparr>spawn = (\<lambda>tr. None), open_session = (\<lambda>tr. None), initialize = (\<lambda>tr. handshake),
      list_tools_rpc = (\<lambda>tr. tools), call_tool_rpc = (\<lambda>tr n a. answer),
      release = (\<lambda>tr r. None), interrupt = (\<lambda>tr r. None), bridge = (\<lambda>tr. None),
      str_of_result = (\<lambda>r. ''content=[] isError=False'')\<rparr>"

definition empty_result :: call_result where
  "empty_result = \<lparr>content = [], isError = False\<rparr>"

definition text_result :: call_result where
  "text_result =
     \<lparr>content = [TextContent ''3 tables: a, b, c'', TextContent ''(end)''], isError = False\<rparr>"

definition image_then_text :: call_result where
  "image_then_text =
     \<lparr>content = [ImageContent ''iVBORw0KGgo='' ''image/png'', TextContent ''3 tables: a, b, c''],
      isError = False\<rparr>"

definition only_image :: call_result where
  "only_image = \<lparr>content = [ImageContent ''iVBORw0KGgo='' ''image/png''], isError = False\<rparr>"

definition list_models :: tool where
  "list_models =
     \<lparr>name = ''list_models'', description = Some ''List the models of the project'',
      inputSchema = Some ''{}''\<rparr>"

definition get_lineage :: tool where
  "get_lineage = \<lparr>name = ''get_lineage'', description = Some [], inputSchema = None\<rparr>"

definition no_tools :: transport where
  "no_tools = fake_transport None (Inr []) (Inr empty_result)"

definition echoes :: "tool list \<Rightarrow> transport" where
  "echoes ts = fake_transport None (Inr ts) (Inr empty_result)"

definition answers :: "call_result \<Rightarrow> transport" where
  "answers r = fake_transport None (Inr []) (Inr r)"

definition call_fails :: transport where
  "call_fails = fake_transport None (Inr []) (Inl (Exn ''McpError'' ''Unknown tool: list_models''))"

definition handshake_fails :: transport where
  "handshake_fails =
     fake_transport (Some (Exn ''McpError'' ''Connection closed'')) (Inr []) (Inr empty_result)"

definition teardown_fails :: transport where
  "teardown_fails =
     (fake_transport None (Inr []) (Inr empty_result))
       \<lparr>release := (\<lambda>tr r. if r = Session then Some (Exn ''RuntimeError'' ''cancel scope'')
                            else None)\<rparr>"

text \<open>
  Transports whose teardown does not end well: the exit of the session is cancelled;
  the handshake fails and then the exit of the session raises.
\<close>

definition teardown_cancelled :: transport where
  "teardown_cancelled =
     (fake_transport None (Inr []) (Inr empty_result))
       \<lparr>interrupt := (\<lambda>tr r. if r = Session then Some (Exn ''CancelledError'' []) else None)\<rparr>"

definition handshake_and_teardown_fail :: transport where
  "handshake_and_teardown_fail =
     (fake_transport (Some (Exn ''McpError'' ''Connection closed'')) (Inr []) (Inr empty_result))
       \<lparr>release := (\<lambda>tr r. if r = Session then Some (Exn ''RuntimeError'' ''cancel scope'')
                            else None)\<rparr>"

definition startup :: sys where
  "startup = \<lparr>io = [], stdout = [], client_instance = None, next_id = 0\<rparr>"

definition connected_client :: client where
  "connected_client =
     \<lparr>ident = 0, session = Some 1, exit_stack = Some [Session, StdioTransport], connected = True\<rparr>"

text \<open>The process once the global client is connected, and once a client was closed.\<close>

definition serving :: sys where
  "serving =
     \<lparr>io = [Spawn ''uvx'' [''--env-file'', ''./.env'', ''dbt-mcp''], OpenSession, Initialize,
            ListTools],
      stdout = [ConnectedOk, ToolsHeader 0, Rule, Rule],
      client_instance = Some connected_client, next_id = 1\<rparr>"

text \<open>
  Two clients whose flag is false: one left by a failed handshake whose teardown raised,
  one left by a failed handshake whose teardown went well.
\<close>

definition half_open :: client where
  "half_open = \<lparr>ident = 0, session = Some 1, exit_stack = Some [], connected = False\<rparr>"

definition stale_client :: client where
  "stale_client = \<lparr>ident = 0, session = Some 1, exit_stack = None, connected = False\<rparr>"



definition fake_agent :: "message list \<Rightarrow> agent" where
  "fake_agent ms =
     \<lparr>invoke = (\<lambda>question. Returned \<lparr>messages = Some ms\<rparr>),
      str_of_state = (\<lambda>r. ''{messages: [...]}''),
      timeout_subclass = (\<lambda>cls. False)\<rparr>"

text \<open>A library that keeps a description without the blanks and line ends around it.\<close>

definition blank :: "char \<Rightarrow> bool" where
  "blank ch = (ch = CHR '' '' \<or> ch = CHR 0x09 \<or> ch = CHR 0x0A \<or> ch = CHR 0x0D)"

definition strip :: "string \<Rightarrow> string" where
  "strip d = rev (dropWhile blank (rev (dropWhile blank d)))"

definition padded :: tool where
  "padded =
     \<lparr>name = ''get_columns'', description = Some '' Columns of a model '',
      inputSchema = None\<rparr>"

definition ai_message :: "string \<Rightarrow> message" where
  "ai_message t = \<lparr>msg_class = ''AIMessage'', msg_type = Some ''ai'', msg_content = Some (Str t)\<rparr>"

definition human_message :: "string \<Rightarrow> message" where
  "human_message t =
     \<lparr>msg_class = ''HumanMessage'', msg_type = Some ''human'', msg_content = Some (Str t)\<rparr>"

section \<open>Properties of the session client\<close>

subsection \<open>Unwinding and closing\<close>

lemma unwind_io: "io (snd (unwind exits st p s)) = io s @ map Release st"
  by (induction st arbitrary: p s) (auto simp: perform_def split: option.splits)

lemma unwind_stdout: "stdout (snd (unwind exits st p s)) = stdout s"
  by (induction st arbitrary: p s) (auto simp: perform_def split: option.splits)

lemma aclose_io: "io (snd (aclose exits st s)) = io s @ map Release st"
  by (simp add: aclose_def unwind_io)

lemma aclose_stdout: "stdout (snd (aclose exits st s)) = stdout s"
  by (simp add: aclose_def unwind_stdout)

subsection \<open>The outcomes of \<open>connect\<close>\<close>

lemma connect_outcome:
  assumes "\<not> connected c" and "connect w c s = (r, c', s')"
  shows "ident c' = ident c \<and>
         ((r = Inr () \<and> connected c' \<and> session c' \<noteq> None \<and> exit_stack c' \<noteq> None)
          \<or> ((\<exists>e. r = Inl e) \<and> \<not> connected c'))"
  using assms
  by (auto simp: connect_def connect_failed_def Let_def split: option.splits prod.splits)

lemma connect_fresh:
  "connect no_tools (DBTMCPClient 0) startup =
     (Inr (), connected_client, serving\<lparr>client_instance := None, next_id := 0\<rparr>)"
  by (simp add: connect_def no_tools_def fake_transport_def DBTMCPClient_def startup_def Let_def
      perform_def print_def list_available_tools_def connected_client_def serving_def)

subsection \<open>The invariant\<close>

lemma connect_inv: "client_inv c \<Longrightarrow> connect w c s = (r, c', s') \<Longrightarrow> client_inv c'"
proof (cases "connected c")
  case True
  assume "client_inv c" "connect w c s = (r, c', s')"
  with True show ?thesis by (simp add: connect_def)
next
  case False
  assume "connect w c s = (r, c', s')"
  from connect_outcome [OF False this] show ?thesis
    by (auto simp: client_inv_def)
qed

lemma close_inv: "close w c s = (r, c', s') \<Longrightarrow> client_inv c \<Longrightarrow> client_inv c'"
  by (auto simp: close_def client_inv_def split: option.splits prod.splits raised.splits)

lemma call_tool_client: "call_tool w c n a s = (r, c', s') \<Longrightarrow> c' = c"
  by (auto simp: call_tool_def Let_def split: if_splits sum.splits)

lemma list_tools_client: "list_tools w c s = (r, c', s') \<Longrightarrow> c' = c"
  by (auto simp: list_tools_def split: if_splits sum.splits)

lemma reachable_inv: "reachable c \<Longrightarrow> client_inv c"
proof (induction rule: reachable.induct)
  case (constructed i)
  show ?case by (simp add: client_inv_def DBTMCPClient_def)
next
  case (after_connect c w s r c' s')
  then show ?case by (blast intro: connect_inv)
next
  case (after_close c w s r c' s')
  then show ?case by (blast intro: close_inv)
next
  case (after_call_tool c w tool_name arguments s q c' s')
  then show ?case by (auto dest: call_tool_client)
next
  case (after_list_tools c w s p c' s')
  then show ?case by (auto dest: list_tools_client)
qed

lemma reachable_connected_client: "reachable connected_client"
  using reachable.after_connect [OF reachable.constructed connect_fresh] .

subsection \<open>Operations that need a connection\<close>

text \<open>
  C1. While the connection flag is false, \<open>call_tool\<close> (with any tool name and any
  arguments) and \<open>list_tools\<close> raise the not-connected error at once: the client and
  the whole process state, the transport events among it, are as before the call.
\<close>

theorem call_and_list_need_connection:
  "\<not> connected c \<Longrightarrow>
     call_tool w c tool_name arguments s = (Inl not_connected, c, s)
     \<and> list_tools w c s = (Inl not_connected, c, s)"
  by (simp add: call_tool_def list_tools_def)

theorem call_and_list_need_connection_witness:
  "\<not> connected (DBTMCPClient 0)
   \<and> call_tool no_tools (DBTMCPClient 0) ''list_models'' None startup
      = (Inl (Exn ''RuntimeError'' ''Not connected to MCP Server. Call connect() first.''),
         DBTMCPClient 0, startup)
   \<and> list_tools no_tools (DBTMCPClient 0) startup
      = (Inl (Exn ''RuntimeError'' ''Not connected to MCP Server. Call connect() first.''),
         DBTMCPClient 0, startup)"
  using call_and_list_need_connection [of "DBTMCPClient 0" no_tools "''list_models''" None startup]
  by (simp add: DBTMCPClient_def not_connected_def)

subsection \<open>Connecting twice\<close>

text \<open>
  C7. On a client whose connection flag is true, \<open>connect\<close> returns at once: it only
  prints the notice, the client is unchanged, its flag is still true, and no event
  (no spawn, no handshake) is added to the transport.
\<close>

theorem connect_idempotent:
  "connected c \<Longrightarrow>
     connect w c s = (Inr (), c, print AlreadyConnected s)
     \<and> io (snd (snd (connect w c s))) = io s
     \<and> connected (fst (snd (connect w c s)))"
  by (simp add: connect_def print_def)

theorem connect_idempotent_witness:
  "connected connected_client
   \<and> connect no_tools connected_client serving =
       (Inr (), connected_client, serving\<lparr>stdout := stdout serving @ [AlreadyConnected]\<rparr>)
   \<and> io (snd (snd (connect no_tools connected_client serving))) = io serving"
  using connect_idempotent [of connected_client no_tools serving]
  by (simp add: connected_client_def print_def)

subsection \<open>Closing\<close>

lemma close_outcome:
  assumes "exit_stack c = Some st"
  shows "fst (snd (close w c s)) = c\<lparr>exit_stack := None, session := None, connected := False\<rparr>"
    and "io (snd (snd (close w c s))) = io s @ map Release st"
    and "fst (close w c s) =
           (case fst (aclose (exit_outcome w) st s) of
              None \<Rightarrow> Inr ()
            | Some (Exception e) \<Rightarrow> Inr ()
            | Some (BaseException b) \<Rightarrow> Inl (BaseException b))"
    and "stdout (snd (snd (close w c s))) =
           stdout s @ (case fst (aclose (exit_outcome w) st s) of
                         None \<Rightarrow> [ConnectionClosed]
                       | Some (Exception e) \<Rightarrow> [CloseFailed e]
                       | Some (BaseException b) \<Rightarrow> [])"
proof -
  obtain r s1 where a: "aclose (exit_outcome w) st s = (r, s1)"
    by (cases "aclose (exit_outcome w) st s")
  have i: "io s1 = io s @ map Release st" using aclose_io [of "exit_outcome w" st s] a by simp
  have o: "stdout s1 = stdout s" using aclose_stdout [of "exit_outcome w" st s] a by simp
  show "fst (snd (close w c s)) = c\<lparr>exit_stack := None, session := None, connected := False\<rparr>"
    using assms a by (simp add: close_def split: option.splits raised.splits)
  show "io (snd (snd (close w c s))) = io s @ map Release st"
    using assms a i by (simp add: close_def print_def split: option.splits raised.splits)
  show "fst (close w c s) =
           (case fst (aclose (exit_outcome w) st s) of
              None \<Rightarrow> Inr ()
            | Some (Exception e) \<Rightarrow> Inr ()
            | Some (BaseException b) \<Rightarrow> Inl (BaseException b))"
    using assms a by (simp add: close_def split: option.splits raised.splits)
  show "stdout (snd (snd (close w c s))) =
           stdout s @ (case fst (aclose (exit_outcome w) st s) of
                         None \<Rightarrow> [ConnectionClosed]
                       | Some (Exception e) \<Rightarrow> [CloseFailed e]
                       | Some (BaseException b) \<Rightarrow> [])"
    using assms a o by (simp add: close_def print_def split: option.splits raised.splits)
qed

lemma close_catches: "fst (close w c s) \<noteq> Inl (Exception e)"
  by (simp add: close_def split: option.splits prod.splits raised.splits)

lemma unwind_uninterrupted:
  assumes "\<forall>tr r. interrupt w tr r = None"
  shows "p \<noteq> Some (BaseException b) \<Longrightarrow>
           fst (unwind (exit_outcome w) st p s) \<noteq> Some (BaseException b)"
proof (induction st arbitrary: p s)
  case Nil
  then show ?case by simp
next
  case (Cons r rs)
  show ?case
  proof (cases "release w (io s) r")
    case None
    with assms have "exit_outcome w (io s) r = None" by (simp add: exit_outcome_def)
    with Cons show ?thesis by simp
  next
    case (Some e)
    with assms have "exit_outcome w (io s) r = Some (Exception e)" by (simp add: exit_outcome_def)
    with Cons.IH [of "Some (Exception e)"] show ?thesis by simp
  qed
qed

lemma close_uninterrupted:
  assumes "\<forall>tr r. interrupt w tr r = None"
  shows "fst (close w c s) = Inr ()"
proof (cases "exit_stack c")
  case None
  then show ?thesis by (simp add: close_def)
next
  case (Some st)
  have "fst (aclose (exit_outcome w) st s) \<noteq> Some (BaseException b)" for b
    using unwind_uninterrupted [OF assms, of None b st s] by (simp add: aclose_def)
  with close_outcome(3) [OF Some, of w s] show ?thesis
    by (auto split: option.splits raised.splits)
qed

text \<open>
  C8, amended. \<open>close\<close> never raises an \<^verbatim>\<open>Exception\<close>, whatever the client was before,
  and it does not raise at all when no teardown is interrupted. On a client that has no
  exit stack, a freshly constructed one among them, it changes nothing. On a client
  with an exit stack it releases every resource of the stack, the latest first, and
  leaves the flag false and both handles unset on every path: an \<^verbatim>\<open>Exception\<close> of the
  teardown only reaches the console, while an exception that is not one (a
  cancellation) leaves \<open>close\<close> after the reset. Every connected client that the
  operations can produce has an exit stack.
\<close>

theorem close_resets:
  "(\<forall>e. fst (close w c s) \<noteq> Inl (Exception e))
   \<and> ((\<forall>tr r. interrupt w tr r = None) \<longrightarrow> fst (close w c s) = Inr ())
   \<and> close w (DBTMCPClient i) s = (Inr (), DBTMCPClient i, s)
   \<and> (exit_stack c = None \<longrightarrow> close w c s = (Inr (), c, s))
   \<and> (\<forall>st. exit_stack c = Some st \<longrightarrow>
         fst (snd (close w c s)) = c\<lparr>exit_stack := None, session := None, connected := False\<rparr>
         \<and> io (snd (snd (close w c s))) = io s @ map Release st
         \<and> fst (close w c s) =
             (case fst (aclose (exit_outcome w) st s) of
                None \<Rightarrow> Inr ()
              | Some (Exception e) \<Rightarrow> Inr ()
              | Some (BaseException b) \<Rightarrow> Inl (BaseException b))
         \<and> stdout (snd (snd (close w c s))) =
             stdout s @ (case fst (aclose (exit_outcome w) st s) of
                           None \<Rightarrow> [ConnectionClosed]
                         | Some (Exception e) \<Rightarrow> [CloseFailed e]
                         | Some (BaseException b) \<Rightarrow> []))
   \<and> (reachable c \<longrightarrow> connected c \<longrightarrow>
         fst (snd (close w c s)) = c\<lparr>exit_stack := None, session := None, connected := False\<rparr>)"
proof -
  have n: "\<forall>e. fst (close w c s) \<noteq> Inl (Exception e)"
    using close_catches [of w c s] by blast
  have u: "(\<forall>tr r. interrupt w tr r = None) \<longrightarrow> fst (close w c s) = Inr ()"
    using close_uninterrupted [of w c s] by blast
  have a: "close w (DBTMCPClient i) s = (Inr (), DBTMCPClient i, s)"
    by (simp add: close_def DBTMCPClient_def)
  have b: "exit_stack c = None \<longrightarrow> close w c s = (Inr (), c, s)"
    by (simp add: close_def)
  have d: "\<forall>st. exit_stack c = Some st \<longrightarrow>
         fst (snd (close w c s)) = c\<lparr>exit_stack := None, session := None, connected := False\<rparr>
         \<and> io (snd (snd (close w c s))) = io s @ map Release st
         \<and> fst (close w c s) =
             (case fst (aclose (exit_outcome w) st s) of
                None \<Rightarrow> Inr ()
              | Some (Exception e) \<Rightarrow> Inr ()
              | Some (BaseException b) \<Rightarrow> Inl (BaseException b))
         \<and> stdout (snd (snd (close w c s))) =
             stdout s @ (case fst (aclose (exit_outcome w) st s) of
                           None \<Rightarrow> [ConnectionClosed]
                         | Some (Exception e) \<Rightarrow> [CloseFailed e]
                         | Some (BaseException b) \<Rightarrow> [])"
    using close_outcome [of c _ w s] by blast
  have e: "reachable c \<longrightarrow> connected c \<longrightarrow>
         fst (snd (close w c s)) = c\<lparr>exit_stack := None, session := None, connected := False\<rparr>"
  proof (intro impI)
    assume "reachable c" "connected c"
    then have "exit_stack c \<noteq> None" using reachable_inv [of c] by (simp add: client_inv_def)
    then obtain st where "exit_stack c = Some st" by blast
    then show "fst (snd (close w c s)) = c\<lparr>exit_stack := None, session := None, connected := False\<rparr>"
      by (rule close_outcome(1))
  qed
  from n u a b d e show ?thesis by blast
qed

lemma close_swallows:
  "close teardown_fails connected_client startup =
       (Inr (), \<lparr>ident = 0, session = None, exit_stack = None, connected = False\<rparr>,
        \<lparr>io = [Release Session, Release StdioTransport],
         stdout = [CloseFailed (Exn ''RuntimeError'' ''cancel scope'')],
         client_instance = None, next_id = 0\<rparr>)"
  by (simp add: connected_client_def close_def aclose_def exit_outcome_def teardown_fails_def
      fake_transport_def startup_def perform_def print_def)

theorem close_resets_witness:
  "close teardown_fails (DBTMCPClient 0) startup = (Inr (), DBTMCPClient 0, startup)
   \<and> exit_stack connected_client = Some [Session, StdioTransport]
   \<and> reachable connected_client \<and> connected connected_client
   \<and> close teardown_fails connected_client startup =
       (Inr (), \<lparr>ident = 0, session = None, exit_stack = None, connected = False\<rparr>,
        \<lparr>io = [Release Session, Release StdioTransport],
         stdout = [CloseFailed (Exn ''RuntimeError'' ''cancel scope'')],
         client_instance = None, next_id = 0\<rparr>)"
proof -
  have "close teardown_fails (DBTMCPClient 0) startup = (Inr (), DBTMCPClient 0, startup)"
    using close_resets [of teardown_fails connected_client startup 0] by blast
  moreover have "exit_stack connected_client = Some [Session, StdioTransport]"
    and "connected connected_client" by (simp_all add: connected_client_def)
  ultimately show ?thesis using reachable_connected_client close_swallows by blast
qed

text \<open>
  C8 as stated fails in three ways. A cancellation of the teardown leaves \<open>close\<close> as
  an exception. A client that never was connected (its only \<open>connect\<close> failed, and the
  teardown in the handler raised) has an exit stack, and \<open>close\<close> on it prints and
  clears the session instead of doing nothing. And a client that was connected, then
  closed, and whose next handshake failed has no exit stack, so \<open>close\<close> leaves its
  session handle set.
\<close>

theorem close_counterexample:
  "fst (close teardown_cancelled connected_client serving)
     = Inl (BaseException (Exn ''CancelledError'' []))
   \<and> fst (snd (connect handshake_and_teardown_fail (DBTMCPClient 0) startup)) = half_open
   \<and> reachable half_open \<and> \<not> connected half_open
   \<and> close no_tools half_open startup = (Inr (), DBTMCPClient 0, print ConnectionClosed startup)
   \<and> close no_tools half_open startup \<noteq> (Inr (), half_open, startup)
   \<and> fst (snd (connect no_tools (DBTMCPClient 0) startup)) = connected_client
   \<and> fst (snd (close no_tools connected_client startup)) = DBTMCPClient 0
   \<and> fst (snd (connect handshake_fails (DBTMCPClient 0) startup)) = stale_client
   \<and> close no_tools stale_client startup = (Inr (), stale_client, startup)
   \<and> session stale_client = Some 1"
proof -
  have a: "fst (close teardown_cancelled connected_client serving)
     = Inl (BaseException (Exn ''CancelledError'' []))"
    by (simp add: connected_client_def close_def aclose_def exit_outcome_def
        teardown_cancelled_def fake_transport_def perform_def)
  have b: "connect handshake_and_teardown_fail (DBTMCPClient 0) startup =
      (Inl (Exn ''RuntimeError'' ''cancel scope''), half_open,
       \<lparr>io = [Spawn ''uvx'' [''--env-file'', ''./.env'', ''dbt-mcp''], OpenSession, Initialize,
              Release Session, Release StdioTransport],
        stdout = [ConnectFailed (Exn ''McpError'' ''Connection closed'')],
        client_instance = None, next_id = 0\<rparr>)"
    by (simp add: connect_def connect_failed_def aclose_def handshake_and_teardown_fail_def
        fake_transport_def DBTMCPClient_def startup_def half_open_def Let_def perform_def print_def)
  have r: "reachable half_open"
    using reachable.after_connect [OF reachable.constructed b] .
  have d: "close no_tools half_open startup = (Inr (), DBTMCPClient 0, print ConnectionClosed startup)"
    by (simp add: close_def aclose_def half_open_def DBTMCPClient_def)
  have e: "close no_tools half_open startup \<noteq> (Inr (), half_open, startup)"
    unfolding d by (simp add: half_open_def DBTMCPClient_def)
  have f: "fst (snd (close no_tools connected_client startup)) = DBTMCPClient 0"
    by (simp add: close_outcome(1) connected_client_def DBTMCPClient_def)
  have g: "fst (snd (connect handshake_fails (DBTMCPClient 0) startup)) = stale_client"
    by (simp add: connect_def connect_failed_def aclose_def handshake_fails_def fake_transport_def
        DBTMCPClient_def startup_def stale_client_def Let_def perform_def print_def)
  have h: "close no_tools stale_client startup = (Inr (), stale_client, startup)"
    by (simp add: close_def stale_client_def)
  have k: "\<not> connected half_open" "session stale_client = Some 1"
    by (simp_all add: half_open_def stale_client_def)
  from a b r d e f g h k connect_fresh show ?thesis by simp
qed

subsection \<open>A connected client holds its handles\<close>

text \<open>
  C10. Whenever the connection flag is true, the session handle and the exit stack are
  both set. The constructor establishes this and \<open>connect\<close> (whether it succeeds or
  fails), \<open>close\<close>, \<open>call_tool\<close> and \<open>list_tools\<close> keep it, so no client that these
  operations produce is connected without a session: the guard for a missing session
  under a true flag is never taken.
\<close>

theorem connected_has_handles:
  "client_inv (DBTMCPClient i)
   \<and> (client_inv c \<longrightarrow> client_inv (fst (snd (connect w c s))))
   \<and> (client_inv c \<longrightarrow> client_inv (fst (snd (close w c s))))
   \<and> (client_inv c \<longrightarrow> client_inv (fst (snd (call_tool w c tool_name arguments s))))
   \<and> (client_inv c \<longrightarrow> client_inv (fst (snd (list_tools w c s))))
   \<and> (reachable c \<longrightarrow> \<not> (connected c \<and> session c = None))
   \<and> (reachable c \<longrightarrow> connected c \<longrightarrow> session c \<noteq> None \<and> exit_stack c \<noteq> None)"
proof -
  have a: "client_inv (DBTMCPClient i)"
    by (simp add: client_inv_def DBTMCPClient_def)
  have b: "client_inv c \<longrightarrow> client_inv (fst (snd (connect w c s)))"
    using connect_inv [of c w s] by (cases "connect w c s") auto
  have d: "client_inv c \<longrightarrow> client_inv (fst (snd (close w c s)))"
    using close_inv [of w c s] by (cases "close w c s") auto
  have e: "client_inv c \<longrightarrow> client_inv (fst (snd (call_tool w c tool_name arguments s)))"
    using call_tool_client [of w c tool_name arguments s]
    by (cases "call_tool w c tool_name arguments s") auto
  have f: "client_inv c \<longrightarrow> client_inv (fst (snd (list_tools w c s)))"
    using list_tools_client [of w c s] by (cases "list_tools w c s") auto
  have g: "reachable c \<longrightarrow> connected c \<longrightarrow> session c \<noteq> None \<and> exit_stack c \<noteq> None"
    using reachable_inv [of c] by (simp add: client_inv_def)
  from a b d e f g show ?thesis by blast
qed

theorem connected_has_handles_witness:
  "reachable connected_client \<and> connected connected_client
   \<and> session connected_client = Some 1
   \<and> exit_stack connected_client = Some [Session, StdioTransport]
   \<and> client_inv connected_client
   \<and> client_inv (fst (snd (close no_tools connected_client startup)))"
  using connected_has_handles [of 0 connected_client no_tools startup "''list_models''" None]
    reachable_connected_client
  by (simp add: connected_client_def client_inv_def)

subsection \<open>A failed handshake\<close>

text \<open>
  C6. On a freshly constructed client, with a transport whose spawn and stream open
  succeed and whose handshake raises, \<open>connect\<close> raises that failure again, releases
  both resources through the exit stack, and leaves the flag false and the exit stack
  unset; the session handle, assigned before the handshake, stays set and is no longer
  the initial one.
\<close>

theorem connect_failure_keeps_session:
  "DBTMCPClient 0 = \<lparr>ident = 0, session = None, exit_stack = None, connected = False\<rparr>
   \<and> connect handshake_fails (DBTMCPClient 0) startup =
     (Inl (Exn ''McpError'' ''Connection closed''),
      \<lparr>ident = 0, session = Some 1, exit_stack = None, connected = False\<rparr>,
      \<lparr>io = [Spawn ''uvx'' [''--env-file'', ''./.env'', ''dbt-mcp''], OpenSession, Initialize,
             Release Session, Release StdioTransport],
       stdout = [ConnectFailed (Exn ''McpError'' ''Connection closed'')],
       client_instance = None, next_id = 0\<rparr>)
   \<and> session (fst (snd (connect handshake_fails (DBTMCPClient 0) startup)))
       \<noteq> session (DBTMCPClient 0)"
  by (simp add: connect_def connect_failed_def aclose_def handshake_fails_def fake_transport_def
      DBTMCPClient_def startup_def Let_def perform_def print_def)

subsection \<open>The global accessor\<close>

lemma get_mcp_client_existing:
  assumes "client_instance s = Some c0" and "connected c0"
  shows "get_mcp_client w s = (Inr c0, s)"
  using assms by (simp add: get_mcp_client_def)









section \<open>Properties of the adapters and of the agent\<close>

subsection \<open>One round trip of a wrapper\<close>

lemma serving_client: "get_mcp_client w serving = (Inr connected_client, serving)"
  by (simp add: get_mcp_client_existing serving_def connected_client_def)

lemma serving_call:
  "call_tool w connected_client n (Some a) serving =
     (case call_tool_rpc w (io serving) n a of
        Inr r \<Rightarrow> (Inr r, connected_client, perform (CallTool n a) serving)
      | Inl e \<Rightarrow> (Inl e, connected_client, print (CallFailed n e) (perform (CallTool n a) serving)))"
proof -
  have "connected connected_client" and "session connected_client = Some 1"
    by (simp_all add: connected_client_def)
  then show ?thesis
    by (simp add: call_tool_def py_or_empty_def Let_def)
qed

lemma round_trip_serving:
  "sync_call_mcp_tool (answers r) n a serving =
     (case content r of
        [] \<Rightarrow> ''content=[] isError=False''
      | TextContent t # rest \<Rightarrow> t
      | ImageContent d m # rest \<Rightarrow> error_calling n (no_attribute ''ImageContent'' ''text'')
      | EmbeddedResource u # rest \<Rightarrow> error_calling n (no_attribute ''EmbeddedResource'' ''text''),
      perform (CallTool n a) serving)"
  by (simp add: sync_call_mcp_tool_def call_coroutine_def serving_client serving_call answers_def
      fake_transport_def split: list.splits content_part.splits)

lemma error_calling_contains:
  "sublist tool_name (error_calling tool_name e) \<and> sublist (exn_msg e) (error_calling tool_name e)"
proof -
  have "error_calling tool_name e =
          (''Error calling MCP tool '' @ [CHR 0x27]) @ tool_name @ ([CHR 0x27] @ '': '' @ exn_msg e)"
    by (simp add: error_calling_def quoted_def)
  then have a: "sublist tool_name (error_calling tool_name e)"
    by (metis sublist_appendI)
  have "error_calling tool_name e =
          (''Error calling MCP tool '' @ [CHR 0x27] @ tool_name @ [CHR 0x27] @ '': '') @ exn_msg e"
    by (simp add: error_calling_def quoted_def)
  then have "sublist (exn_msg e) (error_calling tool_name e)"
    by (metis sublist_append_leftI)
  with a show ?thesis by simp
qed

text \<open>
  C4. Whatever raises in the round trip of a wrapper, the wrapper ends normally with
  the error string of that exception: when no event loop can be had, when getting the
  client raises, when the remote call raises, and when the first content part has no
  text attribute. The string contains the name of the tool and the message of the
  exception.
\<close>

theorem wrapper_catches:
  "(bridge w (io s) = Some e \<longrightarrow>
      sync_call_mcp_tool w tool_name kwargs s = (error_calling tool_name e, s))
   \<and> (bridge w (io s) = None \<and> get_mcp_client w s = (Inl e, s1) \<longrightarrow>
      sync_call_mcp_tool w tool_name kwargs s = (error_calling tool_name e, s1))
   \<and> (bridge w (io s) = None \<and> get_mcp_client w s = (Inr c, s1)
        \<and> call_tool w c tool_name (Some kwargs) s1 = (Inl e, c', s2) \<longrightarrow>
      sync_call_mcp_tool w tool_name kwargs s = (error_calling tool_name e, s2))
   \<and> (bridge w (io s) = None \<and> get_mcp_client w s = (Inr c, s1)
        \<and> call_tool w c tool_name (Some kwargs) s1 = (Inr result, c', s2)
        \<and> content result = ImageContent d m # rest \<longrightarrow>
      sync_call_mcp_tool w tool_name kwargs s =
        (error_calling tool_name (no_attribute ''ImageContent'' ''text''), s2))
   \<and> (bridge w (io s) = None \<and> get_mcp_client w s = (Inr c, s1)
        \<and> call_tool w c tool_name (Some kwargs) s1 = (Inr result, c', s2)
        \<and> content result = EmbeddedResource u # rest \<longrightarrow>
      sync_call_mcp_tool w tool_name kwargs s =
        (error_calling tool_name (no_attribute ''EmbeddedResource'' ''text''), s2))
   \<and> sublist tool_name (error_calling tool_name e)
   \<and> sublist (exn_msg e) (error_calling tool_name e)"
  using error_calling_contains [of tool_name e]
  by (simp add: sync_call_mcp_tool_def call_coroutine_def)

theorem wrapper_catches_witness:
  "bridge call_fails (io serving) = None
   \<and> get_mcp_client call_fails serving = (Inr connected_client, serving)
   \<and> fst (call_tool call_fails connected_client ''list_models'' (Some []) serving)
       = Inl (Exn ''McpError'' ''Unknown tool: list_models'')
   \<and> fst (sync_call_mcp_tool call_fails ''list_models'' [] serving)
       = ''Error calling MCP tool 'list_models': Unknown tool: list_models''
   \<and> sublist ''list_models'' (fst (sync_call_mcp_tool call_fails ''list_models'' [] serving))
   \<and> sublist ''Unknown tool: list_models''
        (fst (sync_call_mcp_tool call_fails ''list_models'' [] serving))"
proof -
  let ?e = "Exn ''McpError'' ''Unknown tool: list_models''"
  let ?s2 = "print (CallFailed ''list_models'' ?e) (perform (CallTool ''list_models'' []) serving)"
  have b: "bridge call_fails (io serving) = None"
    by (simp add: call_fails_def fake_transport_def)
  have g: "get_mcp_client call_fails serving = (Inr connected_client, serving)"
    by (rule serving_client)
  have k: "call_tool call_fails connected_client ''list_models'' (Some []) serving
             = (Inl ?e, connected_client, ?s2)"
    by (simp add: serving_call call_fails_def fake_transport_def)
  note t = wrapper_catches [where w = call_fails and s = serving and e = ?e
      and tool_name = "''list_models''" and kwargs = "[]" and c = connected_client
      and ?s1.0 = serving and c' = connected_client and ?s2.0 = ?s2]
  from t b g k have r: "sync_call_mcp_tool call_fails ''list_models'' [] serving
      = (error_calling ''list_models'' ?e, ?s2)" by blast
  have v: "error_calling ''list_models'' ?e
      = ''Error calling MCP tool 'list_models': Unknown tool: list_models''"
    by (simp add: error_calling_def quoted_def)
  from t have "sublist ''list_models'' (error_calling ''list_models'' ?e)"
    and "sublist (exn_msg ?e) (error_calling ''list_models'' ?e)" by blast+
  with b g k r v show ?thesis by simp
qed

text \<open>
  C2, amended. After a successful round trip the wrapper returns the text of the first
  content part when that part is a text part, and the string form of the whole result
  when the result has no content part; what it returns is a string in every case.
\<close>

theorem wrapper_text_of_first_part:
  assumes "bridge w (io s) = None"
    and "get_mcp_client w s = (Inr c, s1)"
    and "call_tool w c tool_name (Some kwargs) s1 = (Inr result, c', s2)"
  shows "(\<forall>t rest. content result = TextContent t # rest \<longrightarrow>
            sync_call_mcp_tool w tool_name kwargs s = (t, s2))
         \<and> (content result = [] \<longrightarrow>
            sync_call_mcp_tool w tool_name kwargs s = (str_of_result w result, s2))"
  using assms by (simp add: sync_call_mcp_tool_def call_coroutine_def)

theorem wrapper_text_of_first_part_witness:
  "bridge (answers text_result) (io serving) = None
   \<and> get_mcp_client (answers text_result) serving = (Inr connected_client, serving)
   \<and> call_tool (answers text_result) connected_client ''list_models'' (Some []) serving
       = (Inr text_result, connected_client, perform (CallTool ''list_models'' []) serving)
   \<and> sync_call_mcp_tool (answers text_result) ''list_models'' [] serving
       = (''3 tables: a, b, c'', perform (CallTool ''list_models'' []) serving)"
proof -
  have b: "bridge (answers text_result) (io serving) = None"
    by (simp add: answers_def fake_transport_def)
  have g: "get_mcp_client (answers text_result) serving = (Inr connected_client, serving)"
    by (rule serving_client)
  have k: "call_tool (answers text_result) connected_client ''list_models'' (Some []) serving
       = (Inr text_result, connected_client, perform (CallTool ''list_models'' []) serving)"
    by (simp add: serving_call answers_def fake_transport_def)
  have "content text_result = TextContent ''3 tables: a, b, c'' # [TextContent ''(end)'']"
    by (simp add: text_result_def)
  with wrapper_text_of_first_part [OF b g k]
  have "sync_call_mcp_tool (answers text_result) ''list_models'' [] serving
       = (''3 tables: a, b, c'', perform (CallTool ''list_models'' []) serving)" by blast
  with b g k show ?thesis by simp
qed

text \<open>
  C2 as stated fails. A result whose first part is an image and whose second part is a
  text: the first text payload among the parts is not what the wrapper returns. And a
  result with an image as its only part has no text part, yet the wrapper does not
  return the string form of the result.
\<close>

theorem wrapper_first_text_counterexample:
  "fst (sync_call_mcp_tool (answers image_then_text) ''list_models'' [] serving)
     = ''Error calling MCP tool 'list_models': 'ImageContent' object has no attribute 'text''
       @ [CHR 0x27]
   \<and> fst (sync_call_mcp_tool (answers image_then_text) ''list_models'' [] serving)
       \<noteq> ''3 tables: a, b, c''
   \<and> fst (sync_call_mcp_tool (answers only_image) ''list_models'' [] serving)
       \<noteq> str_of_result (answers only_image) only_image"
proof -
  have a: "fst (sync_call_mcp_tool (answers image_then_text) ''list_models'' [] serving)
     = error_calling ''list_models'' (no_attribute ''ImageContent'' ''text'')"
    by (simp add: round_trip_serving image_then_text_def)
  have b: "fst (sync_call_mcp_tool (answers only_image) ''list_models'' [] serving)
     = error_calling ''list_models'' (no_attribute ''ImageContent'' ''text'')"
    by (simp add: round_trip_serving only_image_def)
  have d: "str_of_result (answers only_image) only_image = ''content=[] isError=False''"
    by (simp add: answers_def fake_transport_def)
  show ?thesis
    unfolding a b d by (simp add: error_calling_def no_attribute_def quoted_def)
qed

subsection \<open>Discovery\<close>

lemma convert_tools_described:
  "\<forall>t \<in> set ts. description t \<noteq> None \<Longrightarrow>
     fst (convert_tools kept ts acc s) = Inr (acc @ map (adapter_of kept) ts)"
  by (induction ts arbitrary: acc s) (auto simp: adapter_of_def)

lemma discover_result:
  assumes "get_mcp_client w (print Discovering s) = (Inr c, s1)"
    and "list_tools w c s1 = (Inr tools, c', s2)"
    and "\<forall>t \<in> set tools. description t \<noteq> None"
  shows "fst (discover_mcp_tools kept w s) = Inr (map (adapter_of kept) tools)"
proof -
  let ?s3 = "print (Found (length tools)) s2"
  obtain r s4 where k: "convert_tools kept tools [] ?s3 = (r, s4)"
    by (cases "convert_tools kept tools [] ?s3")
  with convert_tools_described [OF assms(3), of kept "[]" ?s3]
  have "r = Inr (map (adapter_of kept) tools)" by simp
  with assms(1,2) k show ?thesis by (simp add: discover_mcp_tools_def)
qed

lemma discovering_client:
  "get_mcp_client w (print Discovering serving) = (Inr connected_client, print Discovering serving)"
  by (simp add: get_mcp_client_existing serving_def connected_client_def print_def)

lemma discovering_list:
  "list_tools (echoes ts) connected_client (print Discovering serving) =
     (Inr ts, connected_client, perform ListTools (print Discovering serving))"
proof -
  have "connected connected_client" and "session connected_client = Some 1"
    by (simp_all add: connected_client_def)
  then show ?thesis
    by (simp add: list_tools_def echoes_def fake_transport_def)
qed

lemma strip_examples:
  "strip ''List the models of the project'' = ''List the models of the project''"
  "strip ''MCP tool: get_lineage'' = ''MCP tool: get_lineage''"
  "strip '' Columns of a model '' = ''Columns of a model''"
  by (simp_all add: strip_def blank_def)

lemma discover_echo:
  "fst (discover_mcp_tools strip (echoes [list_models, get_lineage, padded]) serving) =
     Inr [\<lparr>adapter_name = ''list_models'',
           adapter_description = ''List the models of the project'',
           adapter_func = ''list_models''\<rparr>,
          \<lparr>adapter_name = ''get_lineage'', adapter_description = ''MCP tool: get_lineage'',
           adapter_func = ''get_lineage''\<rparr>,
          \<lparr>adapter_name = ''get_columns'', adapter_description = ''Columns of a model'',
           adapter_func = ''get_columns''\<rparr>]"
proof -
  have "\<forall>t \<in> set [list_models, get_lineage, padded]. description t \<noteq> None"
    by (simp add: list_models_def get_lineage_def padded_def)
  from discover_result [OF discovering_client discovering_list this, of strip]
  show ?thesis
    by (simp add: adapter_of_def create_mcp_tool_wrapper_def list_models_def get_lineage_def
        padded_def strip_examples)
qed

text \<open>
  C5, amended. When \<open>list_tools\<close> returns descriptors that all have a description,
  discovery returns exactly one adapter per descriptor, in the same order; each adapter
  has the name of its descriptor and calls the tool of that name. The description
  handed to the orchestration library is the descriptor's when that is not empty and
  \<^verbatim>\<open>MCP tool: \<close> followed by the name when it is empty; the adapter's description is
  what the library keeps of it, so a description that is not empty is preserved exactly
  when the library keeps it as it is.
\<close>

theorem discover_one_adapter_per_tool:
  assumes "get_mcp_client w (print Discovering s) = (Inr c, s1)"
    and "list_tools w c s1 = (Inr tools, c', s2)"
    and "\<forall>t \<in> set tools. description t \<noteq> None"
  shows "\<exists>adapters. fst (discover_mcp_tools kept w s) = Inr adapters
           \<and> length adapters = length tools
           \<and> map adapter_name adapters = map name tools
           \<and> map adapter_func adapters = map name tools
           \<and> (\<forall>i < length tools. \<forall>d. description (tools ! i) = Some d \<longrightarrow>
                 adapter_description (adapters ! i) =
                   kept (if d = [] then ''MCP tool: '' @ name (tools ! i) else d))
           \<and> (\<forall>i < length tools. \<forall>d. description (tools ! i) = Some d \<and> d \<noteq> [] \<longrightarrow>
                 (adapter_description (adapters ! i) = d) = (kept d = d))"
proof -
  have a: "fst (discover_mcp_tools kept w s) = Inr (map (adapter_of kept) tools)"
    using assms by (rule discover_result)
  have b: "map adapter_name (map (adapter_of kept) tools) = map name tools"
    by (simp add: adapter_of_def create_mcp_tool_wrapper_def)
  have d: "map adapter_func (map (adapter_of kept) tools) = map name tools"
    by (simp add: adapter_of_def create_mcp_tool_wrapper_def)
  have e: "\<forall>i < length tools. \<forall>d. description (tools ! i) = Some d \<longrightarrow>
                 adapter_description (map (adapter_of kept) tools ! i) =
                   kept (if d = [] then ''MCP tool: '' @ name (tools ! i) else d)"
    by (simp add: adapter_of_def create_mcp_tool_wrapper_def)
  have f: "\<forall>i < length tools. \<forall>d. description (tools ! i) = Some d \<and> d \<noteq> [] \<longrightarrow>
                 (adapter_description (map (adapter_of kept) tools ! i) = d) = (kept d = d)"
    by (simp add: adapter_of_def create_mcp_tool_wrapper_def)
  from a b d e f show ?thesis by simp
qed

theorem discover_one_adapter_per_tool_witness:
  "get_mcp_client (echoes [list_models, get_lineage, padded]) (print Discovering serving)
     = (Inr connected_client, print Discovering serving)
   \<and> list_tools (echoes [list_models, get_lineage, padded]) connected_client
        (print Discovering serving)
     = (Inr [list_models, get_lineage, padded], connected_client,
        perform ListTools (print Discovering serving))
   \<and> description list_models \<noteq> None \<and> description get_lineage \<noteq> None
   \<and> description padded \<noteq> None
   \<and> (\<exists>adapters.
         fst (discover_mcp_tools strip (echoes [list_models, get_lineage, padded]) serving)
           = Inr adapters
         \<and> length adapters = 3
         \<and> map adapter_name adapters = [''list_models'', ''get_lineage'', ''get_columns'']
         \<and> adapter_description (adapters ! 0) = ''List the models of the project''
         \<and> adapter_description (adapters ! 2) = ''Columns of a model'')"
proof -
  let ?ts = "[list_models, get_lineage, padded]"
  have h: "\<forall>t \<in> set ?ts. description t \<noteq> None"
    by (simp add: list_models_def get_lineage_def padded_def)
  from discover_one_adapter_per_tool [OF discovering_client discovering_list h, of strip]
  obtain adapters where
    a: "fst (discover_mcp_tools strip (echoes ?ts) serving) = Inr adapters"
    and l: "length adapters = length ?ts"
    and n: "map adapter_name adapters = map name ?ts"
    and d: "\<forall>i < length ?ts. \<forall>d.
              description (?ts ! i) = Some d \<longrightarrow>
              adapter_description (adapters ! i) =
                strip (if d = [] then ''MCP tool: '' @ name (?ts ! i) else d)"
    by blast
  from d have "adapter_description (adapters ! 0) = strip ''List the models of the project''"
    by (simp add: list_models_def)
  then have x: "adapter_description (adapters ! 0) = ''List the models of the project''"
    by (simp add: strip_examples)
  from d have "adapter_description (adapters ! 2) = strip '' Columns of a model ''"
    by (simp add: padded_def)
  then have y: "adapter_description (adapters ! 2) = ''Columns of a model''"
    by (simp add: strip_examples)
  from a l n x y have "\<exists>adapters.
         fst (discover_mcp_tools strip (echoes ?ts) serving) = Inr adapters
         \<and> length adapters = 3
         \<and> map adapter_name adapters = [''list_models'', ''get_lineage'', ''get_columns'']
         \<and> adapter_description (adapters ! 0) = ''List the models of the project''
         \<and> adapter_description (adapters ! 2) = ''Columns of a model''"
    by (simp add: list_models_def get_lineage_def padded_def)
  with discovering_client discovering_list show ?thesis
    by (simp add: list_models_def get_lineage_def padded_def)
qed

text \<open>
  C5 as stated fails. The fake transport echoes three descriptors; the second has the
  empty description, and its adapter has another description.
\<close>

theorem discover_preserves_counterexample:
  "fst (discover_mcp_tools strip (echoes [list_models, get_lineage, padded]) serving) =
     Inr [\<lparr>adapter_name = ''list_models'',
           adapter_description = ''List the models of the project'',
           adapter_func = ''list_models''\<rparr>,
          \<lparr>adapter_name = ''get_lineage'', adapter_description = ''MCP tool: get_lineage'',
           adapter_func = ''get_lineage''\<rparr>,
          \<lparr>adapter_name = ''get_columns'', adapter_description = ''Columns of a model'',
           adapter_func = ''get_columns''\<rparr>]
   \<and> description get_lineage = Some []
   \<and> Some (adapter_description
        \<lparr>adapter_name = ''get_lineage'', adapter_description = ''MCP tool: get_lineage'',
         adapter_func = ''get_lineage''\<rparr>) \<noteq> description get_lineage"
proof -
  have "description get_lineage = Some []" by (simp add: get_lineage_def)
  with discover_echo show ?thesis by simp
qed

subsection \<open>The answer of the agent\<close>

lemma scan_skip:
  "\<forall>x \<in> set xs. \<not> assistant x \<and> \<not> has_text x \<Longrightarrow> scan_messages (xs @ ys) = scan_messages ys"
  by (induction xs) (auto simp: assistant_def has_text_def split: option.splits py_content.splits)

lemma scan_none:
  "scan_messages xs = Inr None \<longleftrightarrow> (\<forall>x \<in> set xs. \<not> assistant x \<and> \<not> has_text x)"
  by (induction xs) (auto simp: assistant_def has_text_def split: option.splits py_content.splits)

text \<open>
  C3, amended. Scanning the messages of one turn in reverse, \<open>ask_agent\<close> returns the
  content of the latest assistant message provided that no message after it has text;
  in general it returns the content of the latest message that is the assistant's or has
  text, so the text of a message that is not the assistant's is returned when such a
  message comes last. It returns the string form of the whole result exactly when the
  scan finds nothing, which is when no message is the assistant's or has text.
\<close>

theorem ask_agent_scan:
  assumes "invoke ag question = Returned result" and "messages result = Some ms"
  shows "(\<forall>pre m post c. ms = pre @ m # post \<and> assistant m \<and> msg_content m = Some c
            \<and> (\<forall>x \<in> set post. \<not> assistant x \<and> \<not> has_text x) \<longrightarrow> ask_agent ag question = c)
       \<and> (\<forall>pre m post t. ms = pre @ m # post \<and> msg_content m = Some (Str t)
            \<and> (\<forall>x \<in> set post. \<not> assistant x \<and> \<not> has_text x) \<longrightarrow>
            ask_agent ag question = Str t)
       \<and> (scan_messages (rev ms) = Inr None \<longleftrightarrow> (\<forall>x \<in> set ms. \<not> assistant x \<and> \<not> has_text x))
       \<and> (scan_messages (rev ms) = Inr None \<longrightarrow>
            ask_agent ag question = Str (str_of_state ag result))"
proof -
  have a: "ask_agent ag question = c"
    if "ms = pre @ m # post" "assistant m" "msg_content m = Some c"
       "\<forall>x \<in> set post. \<not> assistant x \<and> \<not> has_text x" for pre m post c
  proof -
    have "scan_messages (rev ms) = scan_messages (m # rev pre)"
      using that(1,4) scan_skip [of "rev post" "m # rev pre"] by simp
    also have "\<dots> = Inr (Some c)" using that(2,3) by (simp add: assistant_def)
    finally show ?thesis using assms by (simp add: ask_agent_def)
  qed
  have b: "ask_agent ag question = Str t"
    if "ms = pre @ m # post" "msg_content m = Some (Str t)"
       "\<forall>x \<in> set post. \<not> assistant x \<and> \<not> has_text x" for pre m post t
  proof -
    have "scan_messages (rev ms) = scan_messages (m # rev pre)"
      using that(1,3) scan_skip [of "rev post" "m # rev pre"] by simp
    also have "\<dots> = Inr (Some (Str t))" using that(2) by simp
    finally show ?thesis using assms by (simp add: ask_agent_def)
  qed
  have d: "scan_messages (rev ms) = Inr None \<longleftrightarrow> (\<forall>x \<in> set ms. \<not> assistant x \<and> \<not> has_text x)"
    using scan_none [of "rev ms"] by simp
  have e: "scan_messages (rev ms) = Inr None \<longrightarrow>
             ask_agent ag question = Str (str_of_state ag result)"
    using assms by (simp add: ask_agent_def)
  from a b d e show ?thesis by blast
qed

theorem ask_agent_scan_witness:
  "invoke (fake_agent [human_message ''What tables do we have?'', ai_message ''3 tables: a, b, c''])
      ''What tables do we have?''
     = Returned \<lparr>messages =
         Some [human_message ''What tables do we have?'', ai_message ''3 tables: a, b, c'']\<rparr>
   \<and> assistant (ai_message ''3 tables: a, b, c'')
   \<and> ask_agent (fake_agent [human_message ''What tables do we have?'', ai_message ''3 tables: a, b, c''])
      ''What tables do we have?'' = Str ''3 tables: a, b, c''"
proof -
  let ?ms = "[human_message ''What tables do we have?'', ai_message ''3 tables: a, b, c'']"
  have i: "invoke (fake_agent ?ms) ''What tables do we have?'' = Returned \<lparr>messages = Some ?ms\<rparr>"
    by (simp add: fake_agent_def)
  have m: "messages \<lparr>messages = Some ?ms\<rparr> = Some ?ms" by simp
  have s: "assistant (ai_message ''3 tables: a, b, c'')"
    by (simp add: assistant_def ai_message_def)
  have p: "?ms = [human_message ''What tables do we have?''] @ ai_message ''3 tables: a, b, c'' # []
           \<and> assistant (ai_message ''3 tables: a, b, c'')
           \<and> msg_content (ai_message ''3 tables: a, b, c'') = Some (Str ''3 tables: a, b, c'')
           \<and> (\<forall>x \<in> set []. \<not> assistant x \<and> \<not> has_text x)"
    by (simp add: assistant_def ai_message_def)
  from ask_agent_scan [OF i m] p
  have "ask_agent (fake_agent ?ms) ''What tables do we have?'' = Str ''3 tables: a, b, c''"
    by blast
  with i s show ?thesis by simp
qed

text \<open>
  C3 as stated fails. When a user message follows the assistant's answer, the text
  returned is the user's and not the latest text of the assistant; and with a user
  message alone, where no assistant text is present, the user's text is returned and
  not the string form of the result.
\<close>

theorem ask_agent_scan_counterexample:
  "ask_agent (fake_agent [ai_message ''3 tables: a, b, c'', human_message ''and the columns?''])
      ''What tables do we have?'' = Str ''and the columns?''
   \<and> msg_type (human_message ''and the columns?'') = Some ''human''
   \<and> ask_agent (fake_agent [human_message ''What tables do we have?''])
      ''What tables do we have?'' = Str ''What tables do we have?''"
  by (simp add: ask_agent_def fake_agent_def ai_message_def human_message_def)

end
